theory Spec2Isabelle
  imports Complex_Main
begin

section \<open>Go values used by the scorer and the collectors\<close>

subsection \<open>float64\<close>

text \<open>
  A Go \<^verbatim>\<open>float64\<close> is modelled by its IEEE 754 value classes: a finite value, the two
  infinities and NaN. Finite values are exact reals: rounding and overflow are abstracted,
  and the two zeros are one value. The special values follow IEEE 754: an invalid
  operation gives NaN, NaN is absorbing, and a non-zero finite value divided by zero is
  an infinity. A zero divisor is read as \<^verbatim>\<open>+0\<close>, the only zero an accumulator that starts
  at \<^verbatim>\<open>+0\<close> and is only added to can hold under round-to-nearest.
\<close>

datatype float64 = Fin real | PInf | NInf | NaN

fun fneg :: "float64 \<Rightarrow> float64" where
  "fneg (Fin a) = Fin (- a)"
| "fneg PInf = NInf"
| "fneg NInf = PInf"
| "fneg NaN = NaN"

text \<open>Go's \<^verbatim>\<open>x + y\<close> on float64.\<close>

fun fadd :: "float64 \<Rightarrow> float64 \<Rightarrow> float64" where
  "fadd NaN y = NaN"
| "fadd x NaN = NaN"
| "fadd PInf NInf = NaN"
| "fadd NInf PInf = NaN"
| "fadd PInf y = PInf"
| "fadd x PInf = PInf"
| "fadd NInf y = NInf"
| "fadd x NInf = NInf"
| "fadd (Fin a) (Fin b) = Fin (a + b)"

text \<open>An infinity multiplied by a finite value: NaN at zero, else the sign rule.\<close>

definition scale_inf :: "real \<Rightarrow> float64 \<Rightarrow> float64" where
  "scale_inf a i = (if a = 0 then NaN else if 0 < a then i else fneg i)"

text \<open>Go's \<^verbatim>\<open>x * y\<close> on float64.\<close>

fun fmul :: "float64 \<Rightarrow> float64 \<Rightarrow> float64" where
  "fmul NaN y = NaN"
| "fmul x NaN = NaN"
| "fmul (Fin a) (Fin b) = Fin (a * b)"
| "fmul (Fin a) PInf = scale_inf a PInf"
| "fmul (Fin a) NInf = scale_inf a NInf"
| "fmul PInf (Fin b) = scale_inf b PInf"
| "fmul NInf (Fin b) = scale_inf b NInf"
| "fmul PInf PInf = PInf"
| "fmul PInf NInf = NInf"
| "fmul NInf PInf = NInf"
| "fmul NInf NInf = PInf"

text \<open>
  Go's \<^verbatim>\<open>x / y\<close> on float64 variables. It never panics: \<^verbatim>\<open>0/0\<close> is NaN and
  \<^verbatim>\<open>x/0\<close> is an infinity with the sign of \<^verbatim>\<open>x\<close>.
\<close>

fun fdiv :: "float64 \<Rightarrow> float64 \<Rightarrow> float64" where
  "fdiv NaN y = NaN"
| "fdiv x NaN = NaN"
| "fdiv (Fin a) (Fin b) =
     (if b \<noteq> 0 then Fin (a / b)
      else if 0 < a then PInf
      else if a < 0 then NInf
      else NaN)"
| "fdiv (Fin a) PInf = Fin 0"
| "fdiv (Fin a) NInf = Fin 0"
| "fdiv PInf (Fin b) = (if 0 \<le> b then PInf else NInf)"
| "fdiv NInf (Fin b) = (if 0 \<le> b then NInf else PInf)"
| "fdiv PInf PInf = NaN"
| "fdiv PInf NInf = NaN"
| "fdiv NInf PInf = NaN"
| "fdiv NInf NInf = NaN"

text \<open>
  Go's \<^verbatim>\<open>math.Log\<close>: \<^verbatim>\<open>Log(+Inf) = +Inf\<close>, \<^verbatim>\<open>Log(0) = -Inf\<close>,
  \<^verbatim>\<open>Log(x < 0) = NaN\<close>, \<^verbatim>\<open>Log(NaN) = NaN\<close>.
\<close>

fun math_Log :: "float64 \<Rightarrow> float64" where
  "math_Log (Fin a) = (if 0 < a then Fin (ln a) else if a = 0 then NInf else NaN)"
| "math_Log PInf = PInf"
| "math_Log NInf = NaN"
| "math_Log NaN = NaN"

subsection \<open>Errors\<close>

text \<open>
  A Go \<^verbatim>\<open>error\<close> value: the sentinels this repository declares, any other error (named by
  its message), and \<^verbatim>\<open>fmt.Errorf("msg: %w", err)\<close>, which wraps \<^verbatim>\<open>err\<close>.
\<close>

datatype error =
    ErrUncollectableRepo
  | ErrorUnknownWriterType
  | ErrOther string
  | Wrap string error

definition Errorf :: "string \<Rightarrow> error \<Rightarrow> error" where
  "Errorf msg err = Wrap msg err"

text \<open>\<^verbatim>\<open>errors.Is(err, target)\<close>: walks the chain of wrapped errors.\<close>

fun errors_Is :: "error \<Rightarrow> error \<Rightarrow> bool" where
  "errors_Is (Wrap msg err) target = (Wrap msg err = target \<or> errors_Is err target)"
| "errors_Is err target = (err = target)"

subsection \<open>Strings and URLs\<close>

text \<open>\<^verbatim>\<open>strings.Trim(s, cutset)\<close>: drops the leading and trailing characters of the cutset.\<close>

definition strings_Trim :: "string \<Rightarrow> string \<Rightarrow> string" where
  "strings_Trim s cutset =
     rev (dropWhile (\<lambda>c. c \<in> set cutset) (rev (dropWhile (\<lambda>c. c \<in> set cutset) s)))"

text \<open>
  The parts of a \<^verbatim>\<open>*url.URL\<close> the collectors read: the result of \<^verbatim>\<open>u.Hostname()\<close> and
  the field \<^verbatim>\<open>u.Path\<close>.
\<close>

record URL =
  Hostname :: string
  Path :: string

section \<open>Distributions (package algorithm)\<close>

record Distribution =
  name :: string
  normalizeFn :: "float64 \<Rightarrow> float64"

definition Distribution_String :: "Distribution \<Rightarrow> string" where
  "Distribution_String d = name d"

definition Normalize :: "Distribution \<Rightarrow> float64 \<Rightarrow> float64" where
  "Normalize d v = normalizeFn d v"

definition normalizationFuncs :: "string \<rightharpoonup> (float64 \<Rightarrow> float64)" where
  "normalizationFuncs =
     [''linear'' \<mapsto> (\<lambda>v. v),
      ''zapfian'' \<mapsto> (\<lambda>v. math_Log (fadd (Fin 1) v))]"

definition DefaultDistributionName :: string where
  "DefaultDistributionName = ''linear''"

text \<open>A nil \<^verbatim>\<open>*Distribution\<close> is \<open>None\<close>.\<close>

definition LookupDistribution :: "string \<Rightarrow> Distribution option" where
  "LookupDistribution nm =
     (case normalizationFuncs nm of
        None \<Rightarrow> None
      | Some fn \<Rightarrow> Some \<lparr>name = nm, normalizeFn = fn\<rparr>)"

section \<open>Weighted arithmetic mean (package wam)\<close>

type_synonym record_map = "string \<rightharpoonup> float64"

text \<open>
  Modelled from the spec: the type \<^verbatim>\<open>algorithm.Input\<close> and its method \<^verbatim>\<open>Value\<close> are
  not among the sources. The spec (data model, Input) gives an Input a weight, a
  Distribution used to normalize the raw value before aggregation, and an accessor that
  extracts the raw numeric value from a record, yielding "value, present" instead of
  failing when the value is absent.
\<close>

record Input =
  Source :: "record_map \<Rightarrow> float64 option"
  Distribution :: Distribution
  Weight :: float64

text \<open>
  Modelled from the spec: \<^verbatim>\<open>Input.Value(record)\<close>, the normalized value and whether the
  raw value was present.
\<close>

definition Input_Value :: "Input \<Rightarrow> record_map \<Rightarrow> float64 \<times> bool" where
  "Input_Value i r =
     (case Source i r of
        None \<Rightarrow> (Fin 0, False)
      | Some v \<Rightarrow> (Normalize (Distribution i) v, True))"

text \<open>
  The loop of \<^verbatim>\<open>WeightedArithmeticMean.Score\<close> over \<^verbatim>\<open>p.inputs\<close>, with its two
  accumulators.
\<close>

fun Score_loop :: "Input list \<Rightarrow> record_map \<Rightarrow> float64 \<Rightarrow> float64 \<Rightarrow> float64 \<times> float64" where
  "Score_loop [] r itemSum itemCount = (itemSum, itemCount)"
| "Score_loop (i # rest) r itemSum itemCount =
     (case Input_Value i r of
        (v, ok) \<Rightarrow>
          if ok then Score_loop rest r (fadd itemSum (fmul (Weight i) v)) (fadd itemCount (Weight i))
          else Score_loop rest r itemSum itemCount)"

definition Score :: "Input list \<Rightarrow> record_map \<Rightarrow> float64" where
  "Score inputs r =
     (case Score_loop inputs r (Fin 0) (Fin 0) of (itemSum, itemCount) \<Rightarrow> fdiv itemSum itemCount)"

text \<open>
  The sum of a list of float64 values, and the weight and normalized value of each Input
  whose raw value is present in the record, in the order of the Inputs.
\<close>

fun fsum :: "float64 list \<Rightarrow> float64" where
  "fsum [] = Fin 0"
| "fsum (x # xs) = fadd x (fsum xs)"

definition present_terms :: "Input list \<Rightarrow> record_map \<Rightarrow> (float64 \<times> float64) list" where
  "present_terms inputs r =
     List.map_filter
       (\<lambda>i. map_option (\<lambda>v. (Weight i, Normalize (Distribution i) v)) (Source i r)) inputs"

text \<open>The Inputs and Records of the spec's worked examples.\<close>

definition identity_distribution :: Distribution where
  "identity_distribution = \<lparr>name = ''linear'', normalizeFn = (\<lambda>v. v)\<rparr>"

definition input_A :: Input where
  "input_A = \<lparr>Source = (\<lambda>r. r ''A''), Distribution = identity_distribution, Weight = Fin 2\<rparr>"

definition input_B :: Input where
  "input_B = \<lparr>Source = (\<lambda>r. r ''B''), Distribution = identity_distribution, Weight = Fin 1\<rparr>"


definition record_A :: record_map where
  "record_A = [''A'' \<mapsto> Fin 10]"

section \<open>The commit ID of the build (package vcs)\<close>

definition MissingCommitID :: string where
  "MissingCommitID = ''-missing-''"

definition commitIDKey :: string where
  "commitIDKey = ''vcs.revision''"

text \<open>
  \<^verbatim>\<open>debug.ReadBuildInfo()\<close> is a parameter: \<open>None\<close> when it reports not ok, else the
  key/value pairs of \<^verbatim>\<open>info.Settings\<close>.
\<close>

type_synonym build_info = "(string \<times> string) list option"

fun fetchCommitID_loop :: "(string \<times> string) list \<Rightarrow> string" where
  "fetchCommitID_loop [] = MissingCommitID"
| "fetchCommitID_loop ((k, v) # rest) = (if k = commitIDKey then v else fetchCommitID_loop rest)"

definition fetchCommitID :: "build_info \<Rightarrow> string" where
  "fetchCommitID info =
     (case info of None \<Rightarrow> MissingCommitID | Some settings \<Rightarrow> fetchCommitID_loop settings)"

text \<open>
  \<^verbatim>\<open>CommitID()\<close> reads and may assign the package variable \<^verbatim>\<open>commitID\<close>: it takes the
  variable's value and returns the result with the variable's new value.
\<close>

definition CommitID :: "build_info \<Rightarrow> string \<Rightarrow> string \<times> string" where
  "CommitID info commitID =
     (let commitID' = (if commitID = [] then fetchCommitID info else commitID)
      in (commitID', commitID'))"

section \<open>The collection worker (command collect\_signals)\<close>

definition collectionDateColumnName :: string where
  "collectionDateColumnName = ''collection_date''"

definition commitIDColumnName :: string where
  "commitIDColumnName = ''worker_commit_id''"

text \<open>
  A \<^verbatim>\<open>signalio.Field\<close>: a key and a value of any type. The worker stores a formatted
  score, the job time and the commit ID.
\<close>

datatype field_value = StringValue string | TimeValue int

record signalio_Field =
  Key :: string
  Value :: field_value

text \<open>
  The calls the worker makes on the signalio writers and the blob store, in order. The
  type \<open>'ss\<close> is \<^verbatim>\<open>[]signal.Set\<close>, which the collector returns.
\<close>

datatype 'ss event =
    JSONWriter_new
  | CSVWriter_new 'ss "string list"
  | JSON_WriteSignals 'ss "signalio_Field list"
  | CSV_WriteSignals 'ss "signalio_Field list"
  | WriteToBlobStore_call string string "('ss \<times> signalio_Field list) list"

text \<open>The state outside \<^verbatim>\<open>Process\<close>: the variable of package vcs and the calls made.\<close>

record 'ss world =
  vcs_commitID :: string
  trace :: "'ss event list"

text \<open>
  The collaborators of the worker that are not part of this program: the build info,
  \<^verbatim>\<open>url.Parse\<close>, \<^verbatim>\<open>fmt.Sprintf("%.5f", x)\<close>, \<^verbatim>\<open>time.Format\<close>, the two writers (the
  CSV writer is constructed from the empty sets and the extras) and
  \<^verbatim>\<open>data.WriteToBlobStore\<close>. A nil error is \<open>None\<close>.
\<close>

record 'ss externals =
  ReadBuildInfo :: build_info
  url_Parse :: "string \<Rightarrow> error + URL"
  Sprintf_5f :: "float64 \<Rightarrow> string"
  time_Format :: "int \<Rightarrow> string"
  json_WriteSignals :: "'ss \<Rightarrow> signalio_Field list \<Rightarrow> error option"
  csv_WriteSignals :: "'ss \<Rightarrow> string list \<Rightarrow> 'ss \<Rightarrow> signalio_Field list \<Rightarrow> error option"
  WriteToBlobStore :: "string \<Rightarrow> string \<Rightarrow> ('ss \<times> signalio_Field list) list \<Rightarrow> error option"

text \<open>
  The fields of \<^verbatim>\<open>collectWorker\<close> that \<^verbatim>\<open>Process\<close> reads: the collector \<^verbatim>\<open>w.c\<close> with its
  methods \<^verbatim>\<open>Collect\<close> and \<^verbatim>\<open>EmptySets\<close>, the scorer \<^verbatim>\<open>w.s\<close> (nil is \<open>None\<close>) with its
  method \<^verbatim>\<open>Score\<close>, and the two strings.
\<close>

record 'ss collectWorker =
  c_Collect :: "URL \<Rightarrow> string \<Rightarrow> error + 'ss"
  c_EmptySets :: 'ss
  s_Score :: "('ss \<Rightarrow> float64) option"
  scoreColumnName :: string
  csvBucketURL :: string

text \<open>
  The batch request: the URL of each repository, the job time, and the filename that
  \<^verbatim>\<open>worker.ResultFilename\<close> gives for the request.
\<close>

record request =
  Repos :: "string list"
  JobTime :: int
  ResultFilename :: string

definition call :: "'ss event \<Rightarrow> 'ss world \<Rightarrow> 'ss world" where
  "call ev st = st\<lparr>trace := trace st @ [ev]\<rparr>"

definition vcs_CommitID :: "'ss externals \<Rightarrow> 'ss world \<Rightarrow> string \<times> 'ss world" where
  "vcs_CommitID ext st =
     (case CommitID (ReadBuildInfo ext) (vcs_commitID st) of
        (commitID, var) \<Rightarrow> (commitID, st\<lparr>vcs_commitID := var\<rparr>))"

text \<open>The extras of the output writer, prepared before the loop.\<close>

definition writer_extras ::
  "'ss externals \<Rightarrow> 'ss collectWorker \<Rightarrow> 'ss world \<Rightarrow> string list \<times> 'ss world" where
  "writer_extras ext w st =
     (let extras = [];
          extras = (if s_Score w \<noteq> None then extras @ [scoreColumnName w] else extras);
          extras = extras @ [collectionDateColumnName]
      in case vcs_CommitID ext st of
           (commitID, st') \<Rightarrow>
             ((if commitID \<noteq> MissingCommitID then extras @ [commitIDColumnName] else extras), st'))"

text \<open>The extra fields of one record, prepared in the loop after a successful collection.\<close>

definition record_extras ::
  "'ss externals \<Rightarrow> 'ss collectWorker \<Rightarrow> int \<Rightarrow> 'ss \<Rightarrow> 'ss world \<Rightarrow> signalio_Field list \<times> 'ss world" where
  "record_extras ext w jobTime ss st =
     (let extras = [];
          extras = (case s_Score w of
                      None \<Rightarrow> extras
                    | Some score \<Rightarrow>
                        extras @ [\<lparr>Key = scoreColumnName w, Value = StringValue (Sprintf_5f ext (score ss))\<rparr>]);
          extras = extras @ [\<lparr>Key = collectionDateColumnName, Value = TimeValue jobTime\<rparr>]
      in case vcs_CommitID ext st of
           (commitID, st') \<Rightarrow>
             ((if commitID \<noteq> MissingCommitID
               then extras @ [\<lparr>Key = commitIDColumnName, Value = StringValue commitID\<rparr>]
               else extras), st'))"

text \<open>
  The loop of \<^verbatim>\<open>Process\<close> over the repositories of the shard. The two buffers hold the
  records written so far. The loop ends with the buffers, or returns an error.
\<close>

fun process_repos ::
  "'ss externals \<Rightarrow> 'ss collectWorker \<Rightarrow> int \<Rightarrow> string \<Rightarrow> string list \<Rightarrow> string list \<Rightarrow>
   ('ss \<times> signalio_Field list) list \<Rightarrow> ('ss \<times> signalio_Field list) list \<Rightarrow> 'ss world \<Rightarrow>
   (error + ('ss \<times> signalio_Field list) list \<times> ('ss \<times> signalio_Field list) list) \<times> 'ss world" where
  "process_repos ext w jobTime jobID csvExtras [] jsonOutput csvOutput st =
     (Inr (jsonOutput, csvOutput), st)"
| "process_repos ext w jobTime jobID csvExtras (rawURL # rest) jsonOutput csvOutput st =
     (if rawURL = [] then process_repos ext w jobTime jobID csvExtras rest jsonOutput csvOutput st
      else case url_Parse ext rawURL of
        Inl err \<Rightarrow> process_repos ext w jobTime jobID csvExtras rest jsonOutput csvOutput st
      | Inr u \<Rightarrow>
         (case c_Collect w u jobID of
            Inl err \<Rightarrow>
              if errors_Is err ErrUncollectableRepo
              then process_repos ext w jobTime jobID csvExtras rest jsonOutput csvOutput st
              else (Inl (Errorf ''failed during signal collection'' err), st)
          | Inr ss \<Rightarrow>
             (case record_extras ext w jobTime ss st of
                (extras, st1) \<Rightarrow>
                  (case json_WriteSignals ext ss extras of
                     Some err \<Rightarrow>
                       (Inl (Errorf ''failed writing signals'' err),
                        call (JSON_WriteSignals ss extras) st1)
                   | None \<Rightarrow>
                      (case csv_WriteSignals ext (c_EmptySets w) csvExtras ss extras of
                         Some err \<Rightarrow>
                           (Inl (Errorf ''failed writing signals'' err),
                            call (CSV_WriteSignals ss extras) (call (JSON_WriteSignals ss extras) st1))
                       | None \<Rightarrow>
                           process_repos ext w jobTime jobID csvExtras rest
                             (jsonOutput @ [(ss, extras)]) (csvOutput @ [(ss, extras)])
                             (call (CSV_WriteSignals ss extras)
                                (call (JSON_WriteSignals ss extras) st1)))))))"

text \<open>The start of \<^verbatim>\<open>Process\<close>: the extras, then the two writers.\<close>

definition Process_setup ::
  "'ss externals \<Rightarrow> 'ss collectWorker \<Rightarrow> 'ss world \<Rightarrow> string list \<times> 'ss world" where
  "Process_setup ext w st =
     (case writer_extras ext w st of
        (extras, st1) \<Rightarrow>
          (extras, call (CSVWriter_new (c_EmptySets w) extras) (call JSONWriter_new st1)))"

definition Process ::
  "'ss externals \<Rightarrow> 'ss collectWorker \<Rightarrow> request \<Rightarrow> string \<Rightarrow> 'ss world \<Rightarrow> error option \<times> 'ss world" where
  "Process ext w req bucketURL st =
     (let filename = ResultFilename req;
          jobTime = JobTime req;
          jobID = time_Format ext jobTime
      in case Process_setup ext w st of
        (extras, st1) \<Rightarrow>
          (case process_repos ext w jobTime jobID extras (Repos req) [] [] st1 of
             (Inl err, st2) \<Rightarrow> (Some err, st2)
           | (Inr (jsonOutput, csvOutput), st2) \<Rightarrow>
               (case (if csvBucketURL w \<noteq> []
                      then (WriteToBlobStore ext (csvBucketURL w) filename csvOutput,
                            call (WriteToBlobStore_call (csvBucketURL w) filename csvOutput) st2)
                      else (None, st2)) of
                  (Some err, st3) \<Rightarrow> (Some (Errorf ''error writing csv to blob store'' err), st3)
                | (None, st3) \<Rightarrow>
                    (case WriteToBlobStore ext bucketURL filename jsonOutput of
                       Some err \<Rightarrow>
                         (Some (Errorf ''error writing json to blob store'' err),
                          call (WriteToBlobStore_call bucketURL filename jsonOutput) st3)
                     | None \<Rightarrow>
                         (None, call (WriteToBlobStore_call bucketURL filename jsonOutput) st3)))))"

text \<open>
  What a call on a writer constructed with the extras \<open>extras\<close> may be: a
  \<^verbatim>\<open>WriteSignals\<close> whose extra fields have exactly the keys \<open>extras\<close>, in order, or a write
  to the blob store. No writer is constructed again.
\<close>

fun row_conforms :: "string list \<Rightarrow> 'ss event \<Rightarrow> bool" where
  "row_conforms extras JSONWriter_new = False"
| "row_conforms extras (CSVWriter_new emptySets extras') = False"
| "row_conforms extras (JSON_WriteSignals ss fs) = (map Key fs = extras)"
| "row_conforms extras (CSV_WriteSignals ss fs) = (map Key fs = extras)"
| "row_conforms extras (WriteToBlobStore_call url filename rows) = True"

fun is_blob_write :: "'ss event \<Rightarrow> bool" where
  "is_blob_write (WriteToBlobStore_call url filename rows) = True"
| "is_blob_write ev = False"

text \<open>
  A worker and its collaborators for the examples: the collected sets of a repository
  are its path; the path \<open>gone\<close> is uncollectable, the path \<open>boom\<close> fails otherwise, and
  the raw URL \<open>%\<close> does not parse.
\<close>

definition example_externals :: "string externals" where
  "example_externals =
     \<lparr>ReadBuildInfo = Some [(''vcs.time'', ''t''), (''vcs.revision'', ''abc123'')],
      url_Parse = (\<lambda>raw. if raw = ''%'' then Inl (ErrOther ''invalid URL escape'')
                          else Inr \<lparr>Hostname = ''github.com'', Path = raw\<rparr>),
      Sprintf_5f = (\<lambda>x. ''0.50000''),
      time_Format = (\<lambda>t. ''20220101_000000''),
      json_WriteSignals = (\<lambda>ss fs. None),
      csv_WriteSignals = (\<lambda>emptySets extras ss fs. None),
      WriteToBlobStore = (\<lambda>url filename rows. None)\<rparr>"

definition example_worker :: "string collectWorker" where
  "example_worker =
     \<lparr>c_Collect = (\<lambda>u jobID.
         if Path u = ''gone'' then Inl (Wrap ''collect'' ErrUncollectableRepo)
         else if Path u = ''boom'' then Inl (ErrOther ''transport'')
         else Inr (Path u)),
      c_EmptySets = [],
      s_Score = Some (\<lambda>ss. Fin (1 / 2)),
      scoreColumnName = ''score'',
      csvBucketURL = []\<rparr>"

definition example_world :: "string world" where
  "example_world = \<lparr>vcs_commitID = [], trace = []\<rparr>"

section \<open>The output format selector (package signalio)\<close>

text \<open>
  Modelled from the spec: the type \<^verbatim>\<open>WriterType\<close> with its methods \<^verbatim>\<open>MarshalText\<close> and
  \<^verbatim>\<open>UnmarshalText\<close> is not among the sources; only its test is. The spec names the
  formats CSV, JSON and text, and says that an unrecognized name fails with a
  distinguishable "unknown format" error on both the marshal and the unmarshal path. The
  test constructs \<^verbatim>\<open>WriterType(10)\<close>, so the type is an integer type; the three formats
  are numbered from zero in the order the test lists them.
\<close>

type_synonym WriterType = int

definition WriterTypeCSV :: WriterType where
  "WriterTypeCSV = 0"

definition WriterTypeJSON :: WriterType where
  "WriterTypeJSON = 1"

definition WriterTypeText :: WriterType where
  "WriterTypeText = 2"

text \<open>Modelled from the spec: \<^verbatim>\<open>MarshalText\<close>, the text and the error (nil is \<open>None\<close>).\<close>

definition MarshalText :: "WriterType \<Rightarrow> string \<times> error option" where
  "MarshalText t =
     (if t = WriterTypeCSV then (''csv'', None)
      else if t = WriterTypeJSON then (''json'', None)
      else if t = WriterTypeText then (''text'', None)
      else ([], Some ErrorUnknownWriterType))"

text \<open>
  Modelled from the spec: \<^verbatim>\<open>UnmarshalText\<close> on a pointer receiver, the receiver's new
  value and the error.
\<close>

definition UnmarshalText :: "WriterType \<Rightarrow> string \<Rightarrow> WriterType \<times> error option" where
  "UnmarshalText t txt =
     (if txt = ''csv'' then (WriterTypeCSV, None)
      else if txt = ''json'' then (WriterTypeJSON, None)
      else if txt = ''text'' then (WriterTypeText, None)
      else (t, Some ErrorUnknownWriterType))"

section \<open>The deps.dev source (package depsdev)\<close>


definition parseRepoURL :: "URL \<Rightarrow> string \<times> string" where
  "parseRepoURL u =
     (if Hostname u = ''github.com'' then (strings_Trim (Path u) ''/'', ''GITHUB'')
      else ([], []))"

definition depsDevSource_IsSupported :: "URL \<Rightarrow> bool" where
  "depsDevSource_IsSupported u = (case parseRepoURL u of (n, t) \<Rightarrow> t \<noteq> [])"


section \<open>The GitHub mentions source (package githubmentions)\<close>

record mentionSet =
  MentionCount :: "int option"

definition Source_IsSupported :: "URL \<Rightarrow> bool" where
  "Source_IsSupported r = True"

text \<open>
  The commit search of the GitHub client is a parameter: from the query to the error, or
  to the total of the result.
\<close>

definition githubSearchTotalCommitMentions ::
  "(string \<Rightarrow> error + int) \<Rightarrow> URL \<Rightarrow> int \<times> error option" where
  "githubSearchTotalCommitMentions Search_Commits u =
     (let repoName = strings_Trim (Path u) ''/''
      in case Search_Commits ([CHR 0x22] @ repoName @ [CHR 0x22]) of
           Inl err \<Rightarrow> (0, Some err)
         | Inr cnt \<Rightarrow> (cnt, None))"

definition Source_Get ::
  "(string \<Rightarrow> error + int) \<Rightarrow> URL \<Rightarrow> string \<Rightarrow> mentionSet option \<times> error option" where
  "Source_Get Search_Commits u jobID =
     (let s = \<lparr>MentionCount = None\<rparr>
      in case githubSearchTotalCommitMentions Search_Commits u of
           (c, Some err) \<Rightarrow> (None, Some err)
         | (c, None) \<Rightarrow> (Some (s\<lparr>MentionCount := Some c\<rparr>), None))"

section \<open>Definitions used to state the properties\<close>

text \<open>
  The extras of the column schema, as a list: the score column if and only if a scorer is
  configured, then the collection date, then the commit ID column if and only if
  \<^verbatim>\<open>CommitID()\<close> differs from the missing sentinel.
\<close>

definition schema_extras :: "'ss externals \<Rightarrow> 'ss collectWorker \<Rightarrow> 'ss world \<Rightarrow> string list" where
  "schema_extras ext w st =
     (if s_Score w \<noteq> None then [scoreColumnName w] else [])
     @ [collectionDateColumnName]
     @ (if fst (vcs_CommitID ext st) \<noteq> MissingCommitID then [commitIDColumnName] else [])"

text \<open>Example inputs: two shards, the extra fields of their records, and two lookups.\<close>

definition example_request :: request where
  "example_request =
     \<lparr>Repos = [''a'', ''gone'', ''b''], JobTime = 7, ResultFilename = ''shard-0000001''\<rparr>"

definition example_request_fatal :: request where
  "example_request_fatal =
     \<lparr>Repos = [''a'', ''boom'', ''b''], JobTime = 7, ResultFilename = ''shard-0000001''\<rparr>"

definition example_fields :: "signalio_Field list" where
  "example_fields =
     [\<lparr>Key = ''score'', Value = StringValue ''0.50000''\<rparr>,
      \<lparr>Key = ''collection_date'', Value = TimeValue 7\<rparr>,
      \<lparr>Key = ''worker_commit_id'', Value = StringValue ''abc123''\<rparr>]"


definition example_Search :: "string \<Rightarrow> error + int" where
  "example_Search q =
     (if q = [CHR 0x22] @ ''ossf/scorecard'' @ [CHR 0x22] then Inr 12
      else Inl (ErrOther ''rate limited''))"

section \<open>Properties of the scorer\<close>

subsection \<open>Arithmetic of the accumulators\<close>

lemma fadd_assoc: "fadd (fadd a b) c = fadd a (fadd b c)"
  by (cases a; cases b; cases c; simp)

lemma fadd_zero_left: "fadd (Fin 0) x = x"
  by (cases x; simp)

lemma fadd_zero_right: "fadd x (Fin 0) = x"
  by (cases x; simp)

lemma present_terms_Nil: "present_terms [] r = []"
  by (simp add: present_terms_def)

lemma present_terms_Cons:
  "present_terms (i # rest) r =
     (case Source i r of
        None \<Rightarrow> present_terms rest r
      | Some v \<Rightarrow> (Weight i, Normalize (Distribution i) v) # present_terms rest r)"
  by (simp add: present_terms_def split: option.splits)

lemma present_terms_append:
  "present_terms (xs @ ys) r = present_terms xs r @ present_terms ys r"
  by (simp add: present_terms_def List.map_filter_def)

text \<open>
  The loop adds to its two accumulators the weighted sum and the weight sum of the
  present Inputs. The accumulators are generalised, since each step changes them.
\<close>

lemma Score_loop_sums:
  "Score_loop inputs r s c =
     (fadd s (fsum (map (\<lambda>(w, x). fmul w x) (present_terms inputs r))),
      fadd c (fsum (map fst (present_terms inputs r))))"
proof (induction inputs arbitrary: s c)
  case Nil
  show ?case by (simp add: present_terms_Nil fadd_zero_right)
next
  case (Cons i rest)
  show ?case
  proof (cases "Source i r")
    case None
    then show ?thesis
      using Cons.IH by (simp add: present_terms_Cons Input_Value_def)
  next
    case (Some v)
    then show ?thesis
      using Cons.IH by (simp add: present_terms_Cons Input_Value_def fadd_assoc)
  qed
qed

lemma Score_eq_terms:
  "Score inputs r =
     fdiv (fsum (map (\<lambda>(w, x). fmul w x) (present_terms inputs r)))
          (fsum (map fst (present_terms inputs r)))"
  by (simp add: Score_def Score_loop_sums fadd_zero_left)

lemma Score_loop_absent:
  "\<forall>i \<in> set inputs. \<not> snd (Input_Value i r) \<Longrightarrow> Score_loop inputs r s c = (s, c)"
  by (induction inputs arbitrary: s c) (auto split: prod.splits)

subsection \<open>The weighted arithmetic mean\<close>



text \<open>
  Claim C2. When the value of an Input is absent from the record, \<^verbatim>\<open>Score\<close> does not
  depend on that Input: removing it from the list of Inputs, or changing its weight and
  its distribution, gives the same score. The Input is excluded, not counted as zero.
\<close>

theorem Score_ignores_absent_input:
  assumes "Source i r = None"
  shows "Score (xs @ i # ys) r = Score (xs @ ys) r
       \<and> Score (xs @ i\<lparr>Weight := w, Distribution := d\<rparr> # ys) r = Score (xs @ i # ys) r"
  using assms by (simp add: Score_eq_terms present_terms_append present_terms_Cons)

theorem Score_ignores_absent_input_witness:
  "Source input_B record_A = None
   \<and> Score ([input_A] @ input_B # []) record_A = Score ([input_A] @ []) record_A
   \<and> Score ([input_A] @ input_B\<lparr>Weight := Fin 7,
         Distribution := \<lparr>name = ''zapfian'', normalizeFn = (\<lambda>v. math_Log (fadd (Fin 1) v))\<rparr>\<rparr> # [])
       record_A
     = Score ([input_A] @ input_B # []) record_A"
proof -
  have h: "Source input_B record_A = None"
    by (simp add: input_B_def record_A_def)
  from Score_ignores_absent_input [OF h] h show ?thesis by blast
qed

text \<open>
  Claim C3. When no Input has a present value in the record, \<^verbatim>\<open>Score\<close> divides zero by
  zero and returns NaN: a value that is not finite, and so never the number 0.0.
\<close>

theorem Score_no_present_input_is_NaN:
  assumes "\<forall>i \<in> set inputs. \<not> snd (Input_Value i r)"
  shows "Score inputs r = NaN \<and> (\<forall>x. Score inputs r \<noteq> Fin x)"
  using assms by (simp add: Score_def Score_loop_absent)

theorem Score_no_present_input_is_NaN_witness:
  "(\<exists>i. i \<in> set [input_B]) \<and> \<not> snd (Input_Value input_B record_A)
   \<and> Score [input_B] record_A = NaN \<and> Score [input_B] record_A \<noteq> Fin 0"
proof -
  have h: "\<forall>i \<in> set [input_B]. \<not> snd (Input_Value i record_A)"
    by (simp add: Input_Value_def input_B_def record_A_def)
  from Score_no_present_input_is_NaN [OF h] h show ?thesis by auto
qed

subsection \<open>The distribution registry\<close>



text \<open>
  Claim C5. \<^verbatim>\<open>LookupDistribution\<close> returns, for a registered name, a Distribution whose
  \<^verbatim>\<open>String()\<close> is that name, and nil for every other name.
\<close>

theorem LookupDistribution_registered_or_nil:
  "(nm \<in> dom normalizationFuncs \<longrightarrow>
      (\<exists>d. LookupDistribution nm = Some d \<and> Distribution_String d = nm))
   \<and> (nm \<notin> dom normalizationFuncs \<longrightarrow> LookupDistribution nm = None)"
  by (auto simp: LookupDistribution_def Distribution_String_def split: option.splits)

theorem LookupDistribution_registered_or_nil_witness:
  "''zapfian'' \<in> dom normalizationFuncs
   \<and> (\<exists>d. LookupDistribution ''zapfian'' = Some d \<and> Distribution_String d = ''zapfian'')
   \<and> ''gaussian'' \<notin> dom normalizationFuncs
   \<and> LookupDistribution ''gaussian'' = None"
proof -
  have h1: "''zapfian'' \<in> dom normalizationFuncs"
    by (simp add: normalizationFuncs_def)
  have h2: "''gaussian'' \<notin> dom normalizationFuncs"
    by (simp add: normalizationFuncs_def)
  from LookupDistribution_registered_or_nil [of "''zapfian''"]
       LookupDistribution_registered_or_nil [of "''gaussian''"] h1 h2
  show ?thesis by blast
qed

section \<open>Properties of the collection worker\<close>

subsection \<open>The commit ID is stable\<close>

lemma CommitID_idem:
  "CommitID info g = (cid, g') \<Longrightarrow> g' = cid \<and> CommitID info cid = (cid, cid)"
  by (auto simp: CommitID_def Let_def split: if_splits)

lemma vcs_CommitID_trace: "trace (snd (vcs_CommitID ext st)) = trace st"
  by (simp add: vcs_CommitID_def split: prod.splits)

lemma vcs_CommitID_again:
  "fst (vcs_CommitID ext (snd (vcs_CommitID ext st))) = fst (vcs_CommitID ext st)"
proof -
  obtain cid g' where c: "CommitID (ReadBuildInfo ext) (vcs_commitID st) = (cid, g')"
    by (cases "CommitID (ReadBuildInfo ext) (vcs_commitID st)")
  from CommitID_idem [OF c] have g: "g' = cid"
    and again: "CommitID (ReadBuildInfo ext) cid = (cid, cid)" by simp_all
  show ?thesis
    by (simp add: vcs_CommitID_def c g again)
qed

lemma vcs_CommitID_call: "fst (vcs_CommitID ext (call ev st)) = fst (vcs_CommitID ext st)"
  by (simp add: vcs_CommitID_def call_def split: prod.splits)

lemma trace_call: "trace (call ev st) = trace st @ [ev]"
  by (simp add: call_def)

lemma schema_extras_CommitID:
  "schema_extras ext w (snd (vcs_CommitID ext st)) = schema_extras ext w st"
  by (simp add: schema_extras_def vcs_CommitID_again)

lemma schema_extras_call: "schema_extras ext w (call ev st) = schema_extras ext w st"
  by (simp add: schema_extras_def vcs_CommitID_call)

lemma writer_extras_schema:
  "writer_extras ext w st = (schema_extras ext w st, snd (vcs_CommitID ext st))"
  by (simp add: writer_extras_def schema_extras_def Let_def split: prod.splits)

lemma record_extras_schema:
  "record_extras ext w jobTime ss st = (fs, st') \<Longrightarrow>
     map Key fs = schema_extras ext w st \<and> st' = snd (vcs_CommitID ext st)"
  by (auto simp: record_extras_def schema_extras_def Let_def split: prod.splits option.splits if_splits)

subsection \<open>The loop over the repositories\<close>

text \<open>
  Every call the loop makes is a \<^verbatim>\<open>WriteSignals\<close> whose extra keys are the schema's
  extras. The buffers and the state are generalised, since each record changes them.
\<close>

lemma process_repos_trace:
  "\<exists>evs. trace (snd (process_repos ext w jobTime jobID cx repos js cs st)) = trace st @ evs
       \<and> (\<forall>ev \<in> set evs. row_conforms (schema_extras ext w st) ev \<and> \<not> is_blob_write ev)"
proof (induction repos arbitrary: js cs st)
  case Nil
  show ?case by simp
next
  case (Cons rawURL rest)
  let ?P = "\<lambda>r. \<exists>evs. trace (snd r) = trace st @ evs
       \<and> (\<forall>ev \<in> set evs. row_conforms (schema_extras ext w st) ev \<and> \<not> is_blob_write ev)"
  have skip: "?P (process_repos ext w jobTime jobID cx rest js cs st)"
    by (rule Cons.IH)
  have stop: "?P (Inl e, st)" for e :: error
    by simp
  show ?case
  proof (cases "rawURL = []")
    case True
    with skip show ?thesis by simp
  next
    case nonempty: False
    show ?thesis
    proof (cases "url_Parse ext rawURL")
      case (Inl perr)
      with skip show ?thesis by simp
    next
      case (Inr u)
      show ?thesis
      proof (cases "c_Collect w u jobID")
        case (Inl cerr)
        with nonempty Inr skip show ?thesis by simp
      next
        case collected: (Inr ss)
        obtain fs st1 where re: "record_extras ext w jobTime ss st = (fs, st1)"
          by (cases "record_extras ext w jobTime ss st")
        from record_extras_schema [OF re]
        have keys: "map Key fs = schema_extras ext w st"
          and st1: "st1 = snd (vcs_CommitID ext st)" by simp_all
        have tr1: "trace st1 = trace st" by (simp add: st1 vcs_CommitID_trace)
        have sch1: "schema_extras ext w st1 = schema_extras ext w st"
          by (simp add: st1 schema_extras_CommitID)
        let ?st2 = "call (JSON_WriteSignals ss fs) st1"
        let ?st3 = "call (CSV_WriteSignals ss fs) ?st2"
        show ?thesis
        proof (cases "json_WriteSignals ext ss fs")
          case (Some jerr)
          have "?P (Inl (Errorf ''failed writing signals'' jerr), ?st2)"
            by (simp add: trace_call tr1 keys)
          with nonempty Inr collected re Some show ?thesis by simp
        next
          case jok: None
          show ?thesis
          proof (cases "csv_WriteSignals ext (c_EmptySets w) cx ss fs")
            case (Some cerr)
            have "?P (Inl (Errorf ''failed writing signals'' cerr), ?st3)"
              by (simp add: trace_call tr1 keys)
            with nonempty Inr collected re jok Some show ?thesis by simp
          next
            case cok: None
            from Cons.IH [of "js @ [(ss, fs)]" "cs @ [(ss, fs)]" ?st3]
            obtain evs where
              t: "trace (snd (process_repos ext w jobTime jobID cx rest
                    (js @ [(ss, fs)]) (cs @ [(ss, fs)]) ?st3)) = trace ?st3 @ evs"
              and c: "\<forall>ev \<in> set evs. row_conforms (schema_extras ext w ?st3) ev \<and> \<not> is_blob_write ev"
              by blast
            have sch3: "schema_extras ext w ?st3 = schema_extras ext w st"
              by (simp add: schema_extras_call sch1)
            have "?P (process_repos ext w jobTime jobID cx rest
                    (js @ [(ss, fs)]) (cs @ [(ss, fs)]) ?st3)"
            proof (intro exI conjI)
              show "trace (snd (process_repos ext w jobTime jobID cx rest
                    (js @ [(ss, fs)]) (cs @ [(ss, fs)]) ?st3))
                  = trace st @ ([JSON_WriteSignals ss fs, CSV_WriteSignals ss fs] @ evs)"
                by (simp add: t trace_call tr1)
              show "\<forall>ev \<in> set ([JSON_WriteSignals ss fs, CSV_WriteSignals ss fs] @ evs).
                      row_conforms (schema_extras ext w st) ev \<and> \<not> is_blob_write ev"
                using c by (simp add: sch3 keys)
            qed
            with nonempty Inr collected re jok cok show ?thesis by simp
          qed
        qed
      qed
    qed
  qed
qed

lemma process_repos_skip_empty:
  "process_repos ext w jobTime jobID cx ([] # rest) js cs st =
     process_repos ext w jobTime jobID cx rest js cs st"
  by simp

lemma process_repos_skip_unparseable:
  "url_Parse ext rawURL = Inl perr \<Longrightarrow>
   process_repos ext w jobTime jobID cx (rawURL # rest) js cs st =
     process_repos ext w jobTime jobID cx rest js cs st"
  by simp

lemma process_repos_skip_uncollectable:
  "url_Parse ext rawURL = Inr u \<Longrightarrow> c_Collect w u jobID = Inl cerr \<Longrightarrow>
   errors_Is cerr ErrUncollectableRepo \<Longrightarrow>
   process_repos ext w jobTime jobID cx (rawURL # rest) js cs st =
     process_repos ext w jobTime jobID cx rest js cs st"
  by simp

lemma process_repos_fatal:
  "rawURL \<noteq> [] \<Longrightarrow> url_Parse ext rawURL = Inr u \<Longrightarrow> c_Collect w u jobID = Inl cerr \<Longrightarrow>
   \<not> errors_Is cerr ErrUncollectableRepo \<Longrightarrow>
   process_repos ext w jobTime jobID cx (rawURL # rest) js cs st =
     (Inl (Errorf ''failed during signal collection'' cerr), st)"
  by simp

lemma process_repos_append:
  "process_repos ext w jobTime jobID cx (xs @ ys) js cs st =
     (case process_repos ext w jobTime jobID cx xs js cs st of
        (Inl err, st') \<Rightarrow> (Inl err, st')
      | (Inr (js', cs'), st') \<Rightarrow> process_repos ext w jobTime jobID cx ys js' cs' st')"
proof (induction xs arbitrary: js cs st)
  case Nil
  show ?case by simp
next
  case (Cons rawURL xs)
  show ?case
    by (simp add: Cons.IH split: sum.splits option.splits prod.splits)
qed

lemma process_repos_no_blob:
  "filter is_blob_write (trace (snd (process_repos ext w jobTime jobID cx repos js cs st)))
     = filter is_blob_write (trace st)"
proof -
  from process_repos_trace [of ext w jobTime jobID cx repos js cs st]
  obtain evs where
    t: "trace (snd (process_repos ext w jobTime jobID cx repos js cs st)) = trace st @ evs"
    and c: "\<forall>ev \<in> set evs. row_conforms (schema_extras ext w st) ev \<and> \<not> is_blob_write ev"
    by blast
  from c have "filter is_blob_write evs = []" by (simp add: filter_empty_conv)
  with t show ?thesis by simp
qed

lemma Process_setup_schema:
  "Process_setup ext w st =
     (schema_extras ext w st,
      call (CSVWriter_new (c_EmptySets w) (schema_extras ext w st))
        (call JSONWriter_new (snd (vcs_CommitID ext st))))"
  by (simp add: Process_setup_def writer_extras_schema)

subsection \<open>The example shard\<close>

lemmas example_defs =
  example_externals_def example_worker_def example_world_def example_request_def
  example_request_fatal_def example_fields_def

lemmas worker_defs =
  Process_def Process_setup_def writer_extras_def record_extras_def vcs_CommitID_def
  CommitID_def fetchCommitID_def commitIDKey_def MissingCommitID_def call_def Errorf_def
  collectionDateColumnName_def commitIDColumnName_def Let_def

lemma ex_setup:
  "Process_setup example_externals example_worker example_world =
     ([''score'', ''collection_date'', ''worker_commit_id''],
      \<lparr>vcs_commitID = ''abc123'',
       trace = [JSONWriter_new, CSVWriter_new [] [''score'', ''collection_date'', ''worker_commit_id'']]\<rparr>)"
  by (simp add: example_defs worker_defs)

lemma ex_pre:
  "process_repos example_externals example_worker 7 ''20220101_000000''
      [''score'', ''collection_date'', ''worker_commit_id''] [''a''] [] []
      \<lparr>vcs_commitID = ''abc123'',
       trace = [JSONWriter_new, CSVWriter_new [] [''score'', ''collection_date'', ''worker_commit_id'']]\<rparr>
   = (Inr ([(''a'', example_fields)], [(''a'', example_fields)]),
      \<lparr>vcs_commitID = ''abc123'',
       trace = [JSONWriter_new, CSVWriter_new [] [''score'', ''collection_date'', ''worker_commit_id''],
                JSON_WriteSignals ''a'' example_fields, CSV_WriteSignals ''a'' example_fields]\<rparr>)"
  by (simp add: example_defs worker_defs)

subsection \<open>Skipped repositories and fatal errors\<close>

text \<open>
  Claim C6. In the loop of \<^verbatim>\<open>Process\<close>, a repository whose URL is empty or does not
  parse, or whose collection fails with an error matching \<^verbatim>\<open>ErrUncollectableRepo\<close>, is
  skipped: the loop behaves as if the repository were not in the batch, so no row is
  written for it and the next repository is processed. Any other collection error makes
  \<^verbatim>\<open>Process\<close> return that error, wrapped, once the loop reaches the repository; nothing
  is written to the blob store.
\<close>

theorem process_repos_skips_or_aborts:
  "((rawURL = [] \<or> (\<exists>perr. url_Parse ext rawURL = Inl perr)
      \<or> (\<exists>u cerr. url_Parse ext rawURL = Inr u \<and> c_Collect w u jobID = Inl cerr
            \<and> errors_Is cerr ErrUncollectableRepo)) \<longrightarrow>
     process_repos ext w jobTime jobID cx (pre @ rawURL # rest) js cs st
       = process_repos ext w jobTime jobID cx (pre @ rest) js cs st)
   \<and> (rawURL \<noteq> [] \<and> url_Parse ext rawURL = Inr u
        \<and> c_Collect w u (time_Format ext (JobTime req)) = Inl cerr
        \<and> \<not> errors_Is cerr ErrUncollectableRepo
        \<and> Repos req = pre @ rawURL # rest
        \<and> Process_setup ext w st0 = (extras, st1)
        \<and> process_repos ext w (JobTime req) (time_Format ext (JobTime req)) extras pre [] [] st1
            = (Inr (js1, cs1), st2) \<longrightarrow>
     Process ext w req bucketURL st0
       = (Some (Errorf ''failed during signal collection'' cerr), st2)
     \<and> filter is_blob_write (trace st2) = filter is_blob_write (trace st0))"
proof (intro conjI impI)
  assume skip: "rawURL = [] \<or> (\<exists>perr. url_Parse ext rawURL = Inl perr)
      \<or> (\<exists>u cerr. url_Parse ext rawURL = Inr u \<and> c_Collect w u jobID = Inl cerr
            \<and> errors_Is cerr ErrUncollectableRepo)"
  have step: "process_repos ext w jobTime jobID cx (rawURL # rest) js' cs' st'
       = process_repos ext w jobTime jobID cx rest js' cs' st'" for js' cs' st'
    using skip
    by (auto simp: process_repos_skip_unparseable process_repos_skip_uncollectable)
  show "process_repos ext w jobTime jobID cx (pre @ rawURL # rest) js cs st
       = process_repos ext w jobTime jobID cx (pre @ rest) js cs st"
    by (simp add: process_repos_append [of _ _ _ _ _ pre] step split: prod.splits sum.splits
        del: process_repos.simps)
next
  assume h: "rawURL \<noteq> [] \<and> url_Parse ext rawURL = Inr u
        \<and> c_Collect w u (time_Format ext (JobTime req)) = Inl cerr
        \<and> \<not> errors_Is cerr ErrUncollectableRepo
        \<and> Repos req = pre @ rawURL # rest
        \<and> Process_setup ext w st0 = (extras, st1)
        \<and> process_repos ext w (JobTime req) (time_Format ext (JobTime req)) extras pre [] [] st1
            = (Inr (js1, cs1), st2)"
  let ?jobID = "time_Format ext (JobTime req)"
  from h have fatal: "process_repos ext w (JobTime req) ?jobID extras (rawURL # rest) js1 cs1 st2
       = (Inl (Errorf ''failed during signal collection'' cerr), st2)"
    by (simp add: process_repos_fatal)
  from h have loop: "process_repos ext w (JobTime req) ?jobID extras (Repos req) [] [] st1
       = (Inl (Errorf ''failed during signal collection'' cerr), st2)"
    by (simp add: process_repos_append [of _ _ _ _ _ pre] fatal)
  from h loop
  show "Process ext w req bucketURL st0
       = (Some (Errorf ''failed during signal collection'' cerr), st2)"
    by (simp add: Process_def Let_def)
  from h have st2: "st2 = snd (process_repos ext w (JobTime req) ?jobID extras pre [] [] st1)"
    by simp
  from h Process_setup_schema [of ext w st0]
  have st1: "st1 = call (CSVWriter_new (c_EmptySets w) (schema_extras ext w st0))
        (call JSONWriter_new (snd (vcs_CommitID ext st0)))"
    by auto
  show "filter is_blob_write (trace st2) = filter is_blob_write (trace st0)"
    by (simp add: st2 process_repos_no_blob st1 trace_call vcs_CommitID_trace)
qed

theorem process_repos_skips_or_aborts_witness:
  "errors_Is (Wrap ''collect'' ErrUncollectableRepo) ErrUncollectableRepo
   \<and> process_repos example_externals example_worker 7 ''j'' [] ([''a''] @ ''gone'' # [''b'']) [] [] example_world
     = process_repos example_externals example_worker 7 ''j'' [] ([''a''] @ [''b'']) [] [] example_world
   \<and> process_repos example_externals example_worker 7 ''j'' [] ([''a''] @ ''%'' # [''b'']) [] [] example_world
     = process_repos example_externals example_worker 7 ''j'' [] ([''a''] @ [''b'']) [] [] example_world
   \<and> process_repos example_externals example_worker 7 ''j'' [] ([''a''] @ [] # [''b'']) [] [] example_world
     = process_repos example_externals example_worker 7 ''j'' [] ([''a''] @ [''b'']) [] [] example_world
   \<and> \<not> errors_Is (ErrOther ''transport'') ErrUncollectableRepo
   \<and> fst (Process example_externals example_worker example_request_fatal ''gs://bucket'' example_world)
     = Some (Errorf ''failed during signal collection'' (ErrOther ''transport''))
   \<and> filter is_blob_write (trace (snd
        (Process example_externals example_worker example_request_fatal ''gs://bucket'' example_world)))
     = []"
proof -
  let ?u = "\<lambda>p. \<lparr>Hostname = ''github.com'', Path = p\<rparr>"
  let ?P = "\<lambda>repos. process_repos example_externals example_worker 7 ''j'' [] repos [] [] example_world"
  have is1: "errors_Is (Wrap ''collect'' ErrUncollectableRepo) ErrUncollectableRepo" by simp
  have is2: "\<not> errors_Is (ErrOther ''transport'') ErrUncollectableRepo" by simp
  have p_gone: "url_Parse example_externals ''gone'' = Inr (?u ''gone'')"
    by (simp add: example_externals_def)
  have c_gone: "c_Collect example_worker (?u ''gone'') ''j'' = Inl (Wrap ''collect'' ErrUncollectableRepo)"
    by (simp add: example_worker_def)
  have p_bad: "url_Parse example_externals ''%'' = Inl (ErrOther ''invalid URL escape'')"
    by (simp add: example_externals_def)
  have p_boom: "url_Parse example_externals ''boom'' = Inr (?u ''boom'')"
    by (simp add: example_externals_def)
  have c_boom: "c_Collect example_worker (?u ''boom'')
      (time_Format example_externals (JobTime example_request_fatal)) = Inl (ErrOther ''transport'')"
    by (simp add: example_worker_def)
  have a: "?P ([''a''] @ ''gone'' # [''b'']) = ?P ([''a''] @ [''b''])"
    using process_repos_skips_or_aborts [of "''gone''" example_externals example_worker "''j''" 7 "[]" "[''a'']" "[''b'']"
        "[]" "[]" example_world] p_gone c_gone is1
    by blast
  have b: "?P ([''a''] @ ''%'' # [''b'']) = ?P ([''a''] @ [''b''])"
    using process_repos_skips_or_aborts [of "''%''" example_externals example_worker "''j''" 7 "[]" "[''a'']" "[''b'']"
        "[]" "[]" example_world] p_bad
    by blast
  have c: "?P ([''a''] @ [] # [''b'']) = ?P ([''a''] @ [''b''])"
    using process_repos_skips_or_aborts [of "[]" example_externals example_worker "''j''" 7 "[]" "[''a'']" "[''b'']"
        "[]" "[]" example_world]
    by blast
  have jt: "JobTime example_request_fatal = 7"
    and tf: "time_Format example_externals 7 = ''20220101_000000''"
    and rp: "Repos example_request_fatal = [''a''] @ ''boom'' # [''b'']"
    by (simp_all add: example_request_fatal_def example_externals_def)
  have ne: "''boom'' \<noteq> []" by simp
  have d: "Process example_externals example_worker example_request_fatal ''gs://bucket'' example_world
       = (Some (Errorf ''failed during signal collection'' (ErrOther ''transport'')),
          \<lparr>vcs_commitID = ''abc123'',
           trace = [JSONWriter_new, CSVWriter_new [] [''score'', ''collection_date'', ''worker_commit_id''],
                JSON_WriteSignals ''a'' example_fields, CSV_WriteSignals ''a'' example_fields]\<rparr>)"
    using process_repos_skips_or_aborts [of "''boom''" example_externals example_worker _ _ _ "[''a'']" "[''b'']" _ _ _
        "?u ''boom''" example_request_fatal "ErrOther ''transport''" example_world
        "[''score'', ''collection_date'', ''worker_commit_id'']"
        "\<lparr>vcs_commitID = ''abc123'',
           trace = [JSONWriter_new, CSVWriter_new [] [''score'', ''collection_date'', ''worker_commit_id'']]\<rparr>"
        "[(''a'', example_fields)]" "[(''a'', example_fields)]"
        "\<lparr>vcs_commitID = ''abc123'',
           trace = [JSONWriter_new, CSVWriter_new [] [''score'', ''collection_date'', ''worker_commit_id''],
                JSON_WriteSignals ''a'' example_fields, CSV_WriteSignals ''a'' example_fields]\<rparr>"
        "''gs://bucket''"]
      ne p_boom c_boom is2 rp ex_setup ex_pre
    by (simp add: jt tf)
  from is1 a b c is2 d show ?thesis by simp
qed

subsection \<open>The column schema\<close>

text \<open>
  Claim C7. \<^verbatim>\<open>Process\<close> first constructs the JSON writer and the CSV writer, the CSV
  writer with the extras of the schema (the score column if and only if a scorer is
  configured, then the collection date, then the commit ID column if and only if
  \<^verbatim>\<open>CommitID()\<close> differs from the missing sentinel). Every later call is a
  \<^verbatim>\<open>WriteSignals\<close> whose extra fields have exactly those keys in that order, or a write to
  the blob store.
\<close>

theorem Process_rows_conform_to_schema:
  "\<exists>evs. trace (snd (Process ext w req bucketURL st))
          = trace st @ [JSONWriter_new, CSVWriter_new (c_EmptySets w) (schema_extras ext w st)] @ evs
       \<and> (\<forall>ev \<in> set evs. row_conforms (schema_extras ext w st) ev)"
proof -
  let ?X = "schema_extras ext w st"
  let ?st1 = "call (CSVWriter_new (c_EmptySets w) ?X) (call JSONWriter_new (snd (vcs_CommitID ext st)))"
  let ?jobID = "time_Format ext (JobTime req)"
  let ?new = "[JSONWriter_new, CSVWriter_new (c_EmptySets w) ?X]"
  have tr1: "trace ?st1 = trace st @ ?new"
    by (simp add: trace_call vcs_CommitID_trace)
  have sch1: "schema_extras ext w ?st1 = ?X"
    by (simp add: schema_extras_call schema_extras_CommitID)
  obtain res st2 where loop:
    "process_repos ext w (JobTime req) ?jobID ?X (Repos req) [] [] ?st1 = (res, st2)"
    by (cases "process_repos ext w (JobTime req) ?jobID ?X (Repos req) [] [] ?st1")
  from process_repos_trace [of ext w "JobTime req" ?jobID ?X "Repos req" "[]" "[]" ?st1] loop sch1 tr1
  obtain evs where t2: "trace st2 = trace st @ ?new @ evs"
    and c2: "\<forall>ev \<in> set evs. row_conforms ?X ev"
    by auto
  let ?Q = "\<lambda>r. \<exists>evs. trace (snd r) = trace st @ ?new @ evs \<and> (\<forall>ev \<in> set evs. row_conforms ?X ev)"
  have base: "?Q (e, st2)" for e :: "error option"
    using t2 c2 by auto
  have blob: "?Q (e, call (WriteToBlobStore_call url fname rows) st')"
    if "?Q (e', st')" for e e' :: "error option" and url fname rows st'
  proof -
    from that obtain evs' where t: "trace st' = trace st @ ?new @ evs'"
      and c: "\<forall>ev \<in> set evs'. row_conforms ?X ev" by auto
    show ?thesis
    proof (intro exI conjI)
      show "trace (snd (e, call (WriteToBlobStore_call url fname rows) st'))
          = trace st @ ?new @ (evs' @ [WriteToBlobStore_call url fname rows])"
        by (simp add: trace_call t)
      show "\<forall>ev \<in> set (evs' @ [WriteToBlobStore_call url fname rows]). row_conforms ?X ev"
        using c by simp
    qed
  qed
  show ?thesis
  proof (cases res)
    case (Inl err)
    with loop have "Process ext w req bucketURL st = (Some err, st2)"
      by (simp add: Process_def Let_def Process_setup_schema)
    with base [of "Some err"] show ?thesis by simp
  next
    case (Inr bufs)
    obtain jsonOutput csvOutput where bufs: "bufs = (jsonOutput, csvOutput)" by (cases bufs)
    let ?fn = "ResultFilename req"
    let ?csv = "call (WriteToBlobStore_call (csvBucketURL w) ?fn csvOutput) st2"
    show ?thesis
    proof (cases "csvBucketURL w = []")
      case True
      with loop Inr bufs
      have "Process ext w req bucketURL st =
          (case WriteToBlobStore ext bucketURL ?fn jsonOutput of
             Some err \<Rightarrow> Some (Errorf ''error writing json to blob store'' err)
           | None \<Rightarrow> None,
           call (WriteToBlobStore_call bucketURL ?fn jsonOutput) st2)"
        by (simp add: Process_def Let_def Process_setup_schema split: option.splits)
      with blob [OF base [of None]] show ?thesis by simp
    next
      case False
      show ?thesis
      proof (cases "WriteToBlobStore ext (csvBucketURL w) ?fn csvOutput")
        case (Some cerr)
        with loop Inr bufs False
        have "Process ext w req bucketURL st =
            (Some (Errorf ''error writing csv to blob store'' cerr), ?csv)"
          by (simp add: Process_def Let_def Process_setup_schema)
        with blob [OF base [of None]] show ?thesis by simp
      next
        case None
        with loop Inr bufs False
        have "Process ext w req bucketURL st =
          (case WriteToBlobStore ext bucketURL ?fn jsonOutput of
             Some err \<Rightarrow> Some (Errorf ''error writing json to blob store'' err)
           | None \<Rightarrow> None,
           call (WriteToBlobStore_call bucketURL ?fn jsonOutput) ?csv)"
          by (simp add: Process_def Let_def Process_setup_schema split: option.splits)
        with blob [OF blob [OF base [of None]]] show ?thesis by simp
      qed
    qed
  qed
qed

theorem Process_rows_conform_to_schema_witness:
  "schema_extras example_externals example_worker example_world
     = [''score'', ''collection_date'', ''worker_commit_id'']
   \<and> trace (snd (Process example_externals example_worker example_request ''gs://bucket'' example_world))
     = [JSONWriter_new, CSVWriter_new [] [''score'', ''collection_date'', ''worker_commit_id''],
        JSON_WriteSignals ''a'' example_fields, CSV_WriteSignals ''a'' example_fields,
        JSON_WriteSignals ''b'' example_fields, CSV_WriteSignals ''b'' example_fields,
        WriteToBlobStore_call ''gs://bucket'' ''shard-0000001''
          [(''a'', example_fields), (''b'', example_fields)]]
   \<and> (\<exists>evs. trace (snd (Process example_externals example_worker example_request ''gs://bucket'' example_world))
          = trace example_world @ [JSONWriter_new, CSVWriter_new (c_EmptySets example_worker)
               (schema_extras example_externals example_worker example_world)] @ evs
       \<and> list_all (row_conforms (schema_extras example_externals example_worker example_world)) evs)"
proof -
  have s: "schema_extras example_externals example_worker example_world
     = [''score'', ''collection_date'', ''worker_commit_id'']"
    by (simp add: schema_extras_def example_defs worker_defs)
  have t: "trace (snd (Process example_externals example_worker example_request ''gs://bucket'' example_world))
     = [JSONWriter_new, CSVWriter_new [] [''score'', ''collection_date'', ''worker_commit_id''],
        JSON_WriteSignals ''a'' example_fields, CSV_WriteSignals ''a'' example_fields,
        JSON_WriteSignals ''b'' example_fields, CSV_WriteSignals ''b'' example_fields,
        WriteToBlobStore_call ''gs://bucket'' ''shard-0000001''
          [(''a'', example_fields), (''b'', example_fields)]]"
    by (simp add: example_defs worker_defs)
  from Process_rows_conform_to_schema [of example_externals example_worker example_request "''gs://bucket''" example_world]
  have e: "\<exists>evs. trace (snd (Process example_externals example_worker example_request ''gs://bucket'' example_world))
          = trace example_world @ [JSONWriter_new, CSVWriter_new (c_EmptySets example_worker)
               (schema_extras example_externals example_worker example_world)] @ evs
       \<and> list_all (row_conforms (schema_extras example_externals example_worker example_world)) evs"
    by (simp add: list_all_iff)
  from s t e show ?thesis by blast
qed

section \<open>Properties of the output format selector\<close>

lemma Marshal_known:
  "MarshalText WriterTypeCSV = (''csv'', None)"
  "MarshalText WriterTypeJSON = (''json'', None)"
  "MarshalText WriterTypeText = (''text'', None)"
  by (simp_all add: MarshalText_def WriterTypeCSV_def WriterTypeJSON_def WriterTypeText_def)

lemma Unmarshal_known:
  "UnmarshalText t0 ''csv'' = (WriterTypeCSV, None)"
  "UnmarshalText t0 ''json'' = (WriterTypeJSON, None)"
  "UnmarshalText t0 ''text'' = (WriterTypeText, None)"
  by (simp_all add: UnmarshalText_def)

lemma Marshal_unknown:
  "t \<notin> {WriterTypeCSV, WriterTypeJSON, WriterTypeText} \<Longrightarrow>
     MarshalText t = ([], Some ErrorUnknownWriterType)"
  by (simp add: MarshalText_def)

lemma Unmarshal_unknown:
  "txt \<notin> {''csv'', ''json'', ''text''} \<Longrightarrow>
     UnmarshalText t0 txt = (t0, Some ErrorUnknownWriterType)"
  by (simp add: UnmarshalText_def)

text \<open>
  Claim C8. For each of the formats CSV, JSON and text, unmarshaling the text that
  \<^verbatim>\<open>MarshalText\<close> produces gives a WriterType that marshals back to the same text, and
  each of the names \<open>csv\<close>, \<open>json\<close> and \<open>text\<close> unmarshals to a WriterType that
  marshals to that name. \<^verbatim>\<open>MarshalText\<close> on any other WriterType, and
  \<^verbatim>\<open>UnmarshalText\<close> on any other string, fail with an error matching
  \<^verbatim>\<open>ErrorUnknownWriterType\<close>.
\<close>

theorem WriterType_text_round_trip:
  "(t \<in> {WriterTypeCSV, WriterTypeJSON, WriterTypeText} \<longrightarrow>
      (\<exists>txt t'. MarshalText t = (txt, None)
          \<and> txt \<in> {''csv'', ''json'', ''text''}
          \<and> UnmarshalText t0 txt = (t', None)
          \<and> MarshalText t' = (txt, None)))
   \<and> (txt \<in> {''csv'', ''json'', ''text''} \<longrightarrow>
      (\<exists>t'. UnmarshalText t0 txt = (t', None) \<and> MarshalText t' = (txt, None)))
   \<and> (t \<notin> {WriterTypeCSV, WriterTypeJSON, WriterTypeText} \<longrightarrow>
      (\<exists>out err. MarshalText t = (out, Some err) \<and> errors_Is err ErrorUnknownWriterType))
   \<and> (txt \<notin> {''csv'', ''json'', ''text''} \<longrightarrow>
      (\<exists>err. UnmarshalText t0 txt = (t0, Some err) \<and> errors_Is err ErrorUnknownWriterType))"
proof (intro conjI impI)
  assume "t \<in> {WriterTypeCSV, WriterTypeJSON, WriterTypeText}"
  then consider "t = WriterTypeCSV" | "t = WriterTypeJSON" | "t = WriterTypeText" by blast
  then show "\<exists>txt t'. MarshalText t = (txt, None)
          \<and> txt \<in> {''csv'', ''json'', ''text''}
          \<and> UnmarshalText t0 txt = (t', None)
          \<and> MarshalText t' = (txt, None)"
  proof cases
    case 1 then show ?thesis using Marshal_known(1) Unmarshal_known(1) by blast
  next
    case 2 then show ?thesis using Marshal_known(2) Unmarshal_known(2) by blast
  next
    case 3 then show ?thesis using Marshal_known(3) Unmarshal_known(3) by blast
  qed
next
  assume "txt \<in> {''csv'', ''json'', ''text''}"
  then consider "txt = ''csv''" | "txt = ''json''" | "txt = ''text''" by blast
  then show "\<exists>t'. UnmarshalText t0 txt = (t', None) \<and> MarshalText t' = (txt, None)"
  proof cases
    case 1 then show ?thesis using Marshal_known(1) Unmarshal_known(1) by blast
  next
    case 2 then show ?thesis using Marshal_known(2) Unmarshal_known(2) by blast
  next
    case 3 then show ?thesis using Marshal_known(3) Unmarshal_known(3) by blast
  qed
next
  assume "t \<notin> {WriterTypeCSV, WriterTypeJSON, WriterTypeText}"
  from Marshal_unknown [OF this]
  show "\<exists>out err. MarshalText t = (out, Some err) \<and> errors_Is err ErrorUnknownWriterType"
    by simp
next
  assume "txt \<notin> {''csv'', ''json'', ''text''}"
  from Unmarshal_unknown [OF this]
  show "\<exists>err. UnmarshalText t0 txt = (t0, Some err) \<and> errors_Is err ErrorUnknownWriterType"
    by simp
qed

theorem WriterType_text_round_trip_witness:
  "WriterTypeJSON \<in> {WriterTypeCSV, WriterTypeJSON, WriterTypeText}
   \<and> (\<exists>txt t'. MarshalText WriterTypeJSON = (txt, None)
          \<and> UnmarshalText 0 txt = (t', None) \<and> MarshalText t' = (txt, None))
   \<and> ''text'' \<in> {''csv'', ''json'', ''text''}
   \<and> (\<exists>t'. UnmarshalText 0 ''text'' = (t', None) \<and> MarshalText t' = (''text'', None))
   \<and> (10 :: int) \<notin> {WriterTypeCSV, WriterTypeJSON, WriterTypeText}
   \<and> (\<exists>out err. MarshalText 10 = (out, Some err) \<and> errors_Is err ErrorUnknownWriterType)
   \<and> ''unknown'' \<notin> {''csv'', ''json'', ''text''}
   \<and> (\<exists>err. UnmarshalText 0 ''unknown'' = (0, Some err) \<and> errors_Is err ErrorUnknownWriterType)"
proof -
  have h1: "WriterTypeJSON \<in> {WriterTypeCSV, WriterTypeJSON, WriterTypeText}" by simp
  have h2: "''text'' \<in> {''csv'', ''json'', ''text''}" by simp
  have h3: "(10 :: int) \<notin> {WriterTypeCSV, WriterTypeJSON, WriterTypeText}"
    by (simp add: WriterTypeCSV_def WriterTypeJSON_def WriterTypeText_def)
  have h4: "''unknown'' \<notin> {''csv'', ''json'', ''text''}" by simp
  from WriterType_text_round_trip [of WriterTypeJSON 0 "''text''"] h1 h2
  have a: "(\<exists>txt t'. MarshalText WriterTypeJSON = (txt, None)
          \<and> UnmarshalText 0 txt = (t', None) \<and> MarshalText t' = (txt, None))
     \<and> (\<exists>t'. UnmarshalText 0 ''text'' = (t', None) \<and> MarshalText t' = (''text'', None))"
    by blast
  from WriterType_text_round_trip [of 10 0 "''unknown''"] h3 h4
  have b: "(\<exists>out err. MarshalText 10 = (out, Some err) \<and> errors_Is err ErrorUnknownWriterType)
     \<and> (\<exists>err. UnmarshalText 0 ''unknown'' = (0, Some err) \<and> errors_Is err ErrorUnknownWriterType)"
    by blast
  from a b h1 h2 h3 h4 show ?thesis by blast
qed

section \<open>Properties of the sources\<close>





text \<open>
  Claim C10. The GitHub mentions source supports every repository. Its \<^verbatim>\<open>Get\<close>
  returns either a nil Set with the error of the commit search, or a Set whose mention
  count is set with a nil error; it never returns a Set whose mention count is unset.
\<close>

theorem Source_Get_atomic:
  "Source_IsSupported r
   \<and> ((\<exists>err. Source_Get Search_Commits u jobID = (None, Some err))
      \<or> (\<exists>c. Source_Get Search_Commits u jobID = (Some \<lparr>MentionCount = Some c\<rparr>, None)))
   \<and> (Search_Commits ([CHR 0x22] @ strings_Trim (Path u) ''/'' @ [CHR 0x22]) = Inl err \<longrightarrow>
        Source_Get Search_Commits u jobID = (None, Some err))
   \<and> (Search_Commits ([CHR 0x22] @ strings_Trim (Path u) ''/'' @ [CHR 0x22]) = Inr c \<longrightarrow>
        Source_Get Search_Commits u jobID = (Some \<lparr>MentionCount = Some c\<rparr>, None))
   \<and> (Source_Get Search_Commits u jobID = (Some s, e) \<longrightarrow> MentionCount s \<noteq> None \<and> e = None)"
  by (auto simp: Source_IsSupported_def Source_Get_def githubSearchTotalCommitMentions_def
      Let_def split: sum.splits prod.splits option.splits)

theorem Source_Get_atomic_witness:
  "Source_IsSupported \<lparr>Hostname = ''example.org'', Path = ''/x''\<rparr>
   \<and> example_Search ([CHR 0x22] @ strings_Trim ''/ossf/scorecard/'' ''/'' @ [CHR 0x22]) = Inr 12
   \<and> Source_Get example_Search \<lparr>Hostname = ''github.com'', Path = ''/ossf/scorecard/''\<rparr> ''j''
       = (Some \<lparr>MentionCount = Some 12\<rparr>, None)
   \<and> example_Search ([CHR 0x22] @ strings_Trim ''/ossf/none'' ''/'' @ [CHR 0x22])
       = Inl (ErrOther ''rate limited'')
   \<and> Source_Get example_Search \<lparr>Hostname = ''github.com'', Path = ''/ossf/none''\<rparr> ''j''
       = (None, Some (ErrOther ''rate limited''))"
proof -
  let ?u1 = "\<lparr>Hostname = ''github.com'', Path = ''/ossf/scorecard/''\<rparr>"
  let ?u2 = "\<lparr>Hostname = ''github.com'', Path = ''/ossf/none''\<rparr>"
  have s1: "example_Search ([CHR 0x22] @ strings_Trim ''/ossf/scorecard/'' ''/'' @ [CHR 0x22]) = Inr 12"
    by (simp add: example_Search_def strings_Trim_def)
  have s2: "example_Search ([CHR 0x22] @ strings_Trim ''/ossf/none'' ''/'' @ [CHR 0x22])
       = Inl (ErrOther ''rate limited'')"
    by (simp add: example_Search_def strings_Trim_def)
  from Source_Get_atomic [of "\<lparr>Hostname = ''example.org'', Path = ''/x''\<rparr>" example_Search ?u1 "''j''" _ 12] s1
  have a: "Source_IsSupported \<lparr>Hostname = ''example.org'', Path = ''/x''\<rparr>
      \<and> Source_Get example_Search ?u1 ''j'' = (Some \<lparr>MentionCount = Some 12\<rparr>, None)"
    by simp
  from Source_Get_atomic [of _ example_Search ?u2 "''j''" "ErrOther ''rate limited''"] s2
  have b: "Source_Get example_Search ?u2 ''j'' = (None, Some (ErrOther ''rate limited''))"
    by simp
  from a s1 s2 b show ?thesis by blast
qed

end
